theory Spec2Isabelle
  imports
    Main
    "HOL-Library.AList"
    "HOL-Library.Multiset"
    "HOL-Library.Product_Lexorder"
    "HOL-Library.Word"
begin

section \<open>Python values, exceptions and the version index\<close>

text \<open>
  The development embeds \<^verbatim>\<open>core/version_manager.py\<close> and \<^verbatim>\<open>utils/time_utils.py\<close>.
  Exceptions are values of \<open>exn\<close>; a computation that may raise and that reads or
  changes the outside world has type \<open>'a io\<close>.  Python's class hierarchy matters at two
  handlers: \<^verbatim>\<open>JSONDecodeError\<close> is a \<^verbatim>\<open>ValueError\<close>, and \<^verbatim>\<open>FileNotFoundError\<close> is an
  \<^verbatim>\<open>OSError\<close>.  All of them are instances of \<^verbatim>\<open>Exception\<close>.
\<close>

datatype exn =
    TypeError
  | ValueError
  | KeyError
  | IndexError
  | ImportError
  | FileNotFoundError
  | JSONDecodeError
  | OSError

fun exn_text :: "exn \<Rightarrow> string" where
  "exn_text TypeError = ''TypeError''"
| "exn_text ValueError = ''ValueError''"
| "exn_text KeyError = ''KeyError''"
| "exn_text IndexError = ''IndexError''"
| "exn_text ImportError = ''ImportError''"
| "exn_text FileNotFoundError = ''FileNotFoundError''"
| "exn_text JSONDecodeError = ''JSONDecodeError''"
| "exn_text OSError = ''OSError''"

definition is_ValueError :: "exn \<Rightarrow> bool" where
  "is_ValueError e = (e = ValueError \<or> e = JSONDecodeError)"

text \<open>JSON values, used for version metadata and for the values of the settings.
  Numbers are restricted to integers.\<close>

datatype json =
    JNull
  | JBool bool
  | JInt int
  | JStr string
  | JList "json list"
  | JObj "(string \<times> json) list"

text \<open>
  One entry of a file's \<^verbatim>\<open>versions\<close> dictionary.  Every key of the dictionary may be
  missing in a file read from disk, so every field is optional; \<open>None\<close> is the missing
  key.  Dictionaries whose order is observable (\<^verbatim>\<open>versions.items()\<close>) are association
  lists in insertion order.
\<close>

record version_info =
  timestamp :: "string option"
  metadata :: "json option"
  username :: "string option"
  commit_message :: "string option"
  deleted :: "bool option"

record tracked_entry =
  versions :: "(string \<times> version_info) list option"
  last_updated :: "string option"

type_synonym tracked_files = "(string \<times> tracked_entry) list"

definition empty_info :: version_info where
  "empty_info = \<lparr>timestamp = None, metadata = None, username = None,
     commit_message = None, deleted = None\<rparr>"

definition is_deleted :: "version_info \<Rightarrow> bool" where
  \<comment> \<open>\<^verbatim>\<open>info.get("deleted", False)\<close>\<close>
  "is_deleted info = (case deleted info of None \<Rightarrow> False | Some b \<Rightarrow> b)"

section \<open>The outside world\<close>

text \<open>
  What a file of the index directory holds, as far as \<^verbatim>\<open>json.load\<close> can tell: the
  complete text of a mapping, a text whose writing stopped before its end (possibly
  empty), or bytes that are no JSON document.
\<close>

datatype index_data =
    Document tracked_files
  | Incomplete
  | Unparsable string

type_synonym datetime = "nat \<times> nat \<times> nat \<times> nat \<times> nat \<times> nat"

text \<open>
  The world: the clock, the login name, the files whose content is hashed, the files
  of the index directory, the error log, the console, and a schedule of input/output
  faults.  Every primitive that can fail for reasons outside the program takes the
  head of the schedule: \<open>True\<close> makes it raise \<^verbatim>\<open>OSError\<close>.  An empty schedule means
  no further fault.
\<close>

record world =
  utcnow :: datetime
  login :: string
  files :: "(string \<times> 8 word list) list"
  index_files :: "(string \<times> index_data) list"
  logs_dir :: bool
  error_log :: "string list"
  console :: "string list"
  faults :: "bool list"

type_synonym 'a io = "world \<Rightarrow> (exn + 'a) \<times> world"

definition return :: "'a \<Rightarrow> 'a io" where
  "return x w = (Inr x, w)"

definition raise :: "exn \<Rightarrow> 'a io" where
  "raise e w = (Inl e, w)"

definition bind :: "'a io \<Rightarrow> ('a \<Rightarrow> 'b io) \<Rightarrow> 'b io" where
  "bind m f w = (case m w of (Inl e, w1) \<Rightarrow> (Inl e, w1) | (Inr x, w1) \<Rightarrow> f x w1)"

definition try_except :: "'a io \<Rightarrow> (exn \<Rightarrow> 'a io) \<Rightarrow> 'a io" where
  \<comment> \<open>\<^verbatim>\<open>try: m  except Exception as e: h e\<close>; a handler for fewer classes re-raises the rest\<close>
  "try_except m h w = (case m w of (Inl e, w1) \<Rightarrow> h e w1 | (Inr x, w1) \<Rightarrow> (Inr x, w1))"

definition fault_now :: "world \<Rightarrow> bool" where
  "fault_now w = (case faults w of [] \<Rightarrow> False | b # bs \<Rightarrow> b)"

definition fault_taken :: "world \<Rightarrow> world" where
  "fault_taken w = w\<lparr>faults := tl (faults w)\<rparr>"

definition fallible :: "unit io" where
  "fallible w = (if fault_now w then Inl OSError else Inr (), fault_taken w)"

definition print :: "string \<Rightarrow> unit io" where
  "print line w = (Inr (), w\<lparr>console := console w @ [line]\<rparr>)"

section \<open>Library functions the code calls\<close>

subsection \<open>\<^verbatim>\<open>strftime\<close> and \<^verbatim>\<open>strptime\<close> for \<^verbatim>\<open>"%Y-%m-%d %H:%M:%S"\<close>\<close>

definition digit_char :: "nat \<Rightarrow> char" where
  "digit_char n = char_of (48 + n mod 10)"

definition pad2 :: "nat \<Rightarrow> string" where
  "pad2 n = [digit_char (n div 10), digit_char n]"

definition pad4 :: "nat \<Rightarrow> string" where
  "pad4 n = [digit_char (n div 1000), digit_char (n div 100), digit_char (n div 10), digit_char n]"

fun strftime :: "datetime \<Rightarrow> string" where
  "strftime (y, mo, d, h, mi, s) =
     pad4 y @ ''-'' @ pad2 mo @ ''-'' @ pad2 d @ '' '' @ pad2 h @ '':'' @ pad2 mi @ '':'' @ pad2 s"

definition is_digit :: "char \<Rightarrow> bool" where
  "is_digit c = (48 \<le> (of_char c :: nat) \<and> (of_char c :: nat) \<le> 57)"

definition digit_val :: "char \<Rightarrow> nat" where
  "digit_val c = of_char c - 48"

definition is_space :: "char \<Rightarrow> bool" where
  \<comment> \<open>the ASCII characters that \<^verbatim>\<open>\s\<close> and \<^verbatim>\<open>str.strip\<close> take for white space\<close>
  "is_space c = ((of_char c :: nat) \<in> {9, 10, 11, 12, 13, 28, 29, 30, 31, 32})"

text \<open>
  \<^verbatim>\<open>strptime\<close> compiles the format into a regular expression and matches it with
  backtracking.  Each directive is modelled by the list of its alternatives that match
  a prefix of the input, in the order the expression tries them, each with the rest of
  the input; the first way through all directives is the match.
\<close>

definition two_digits :: "(nat \<Rightarrow> bool) \<Rightarrow> (nat \<Rightarrow> bool) \<Rightarrow> string \<Rightarrow> (nat \<times> string) list" where
  "two_digits p q s =
     (case s of
        a # b # r \<Rightarrow>
          (if is_digit a \<and> is_digit b \<and> p (digit_val a) \<and> q (digit_val b)
           then [(10 * digit_val a + digit_val b, r)] else [])
      | _ \<Rightarrow> [])"

definition one_digit :: "(nat \<Rightarrow> bool) \<Rightarrow> string \<Rightarrow> (nat \<times> string) list" where
  "one_digit p s =
     (case s of
        a # r \<Rightarrow> (if is_digit a \<and> p (digit_val a) then [(digit_val a, r)] else [])
      | _ \<Rightarrow> [])"

definition lit :: "char \<Rightarrow> string \<Rightarrow> string list" where
  "lit c s = (case s of a # r \<Rightarrow> (if a = c then [r] else []) | _ \<Rightarrow> [])"

definition re_Y :: "string \<Rightarrow> (nat \<times> string) list" where
  \<comment> \<open>\<^verbatim>\<open>\d\d\d\d\<close>\<close>
  "re_Y s =
     (case s of
        a # b # c # d # r \<Rightarrow>
          (if is_digit a \<and> is_digit b \<and> is_digit c \<and> is_digit d
           then [(1000 * digit_val a + 100 * digit_val b + 10 * digit_val c + digit_val d, r)]
           else [])
      | _ \<Rightarrow> [])"

definition re_m :: "string \<Rightarrow> (nat \<times> string) list" where
  \<comment> \<open>\<^verbatim>\<open>1[0-2]|0[1-9]|[1-9]\<close>\<close>
  "re_m s =
     two_digits (\<lambda>a. a = 1) (\<lambda>b. b \<le> 2) s @
     two_digits (\<lambda>a. a = 0) (\<lambda>b. 1 \<le> b) s @
     one_digit (\<lambda>a. 1 \<le> a) s"

definition re_d :: "string \<Rightarrow> (nat \<times> string) list" where
  \<comment> \<open>\<^verbatim>\<open>3[0-1]|[1-2]\d|0[1-9]|[1-9]| [1-9]\<close>\<close>
  "re_d s =
     two_digits (\<lambda>a. a = 3) (\<lambda>b. b \<le> 1) s @
     two_digits (\<lambda>a. 1 \<le> a \<and> a \<le> 2) (\<lambda>b. True) s @
     two_digits (\<lambda>a. a = 0) (\<lambda>b. 1 \<le> b) s @
     one_digit (\<lambda>a. 1 \<le> a) s @
     concat (map (one_digit (\<lambda>a. 1 \<le> a)) (lit CHR '' '' s))"

definition re_H :: "string \<Rightarrow> (nat \<times> string) list" where
  \<comment> \<open>\<^verbatim>\<open>2[0-3]|[0-1]\d|\d\<close>\<close>
  "re_H s =
     two_digits (\<lambda>a. a = 2) (\<lambda>b. b \<le> 3) s @
     two_digits (\<lambda>a. a \<le> 1) (\<lambda>b. True) s @
     one_digit (\<lambda>a. True) s"

definition re_M :: "string \<Rightarrow> (nat \<times> string) list" where
  \<comment> \<open>\<^verbatim>\<open>[0-5]\d|\d\<close>\<close>
  "re_M s = two_digits (\<lambda>a. a \<le> 5) (\<lambda>b. True) s @ one_digit (\<lambda>a. True) s"

definition re_S :: "string \<Rightarrow> (nat \<times> string) list" where
  \<comment> \<open>\<^verbatim>\<open>6[0-1]|[0-5]\d|\d\<close>\<close>
  "re_S s =
     two_digits (\<lambda>a. a = 6) (\<lambda>b. b \<le> 1) s @
     two_digits (\<lambda>a. a \<le> 5) (\<lambda>b. True) s @
     one_digit (\<lambda>a. True) s"

fun re_spaces :: "string \<Rightarrow> string list" where
  \<comment> \<open>\<^verbatim>\<open>\s+\<close>, greedy: the longest run first\<close>
  "re_spaces [] = []"
| "re_spaces (c # r) = (if is_space c then re_spaces r @ [r] else [])"

definition then_lit :: "char \<Rightarrow> ('a \<times> string) list \<Rightarrow> ('a \<times> string) list" where
  "then_lit c ps = concat (map (\<lambda>(v, r). map (Pair v) (lit c r)) ps)"

definition then_re ::
  "(string \<Rightarrow> ('b \<times> string) list) \<Rightarrow> ('a \<times> string) list \<Rightarrow> (('a \<times> 'b) \<times> string) list" where
  "then_re p ps = concat (map (\<lambda>(v, r). map (\<lambda>(u, r'). ((v, u), r')) (p r)) ps)"

definition regex_match :: "string \<Rightarrow> (datetime \<times> string) option" where
  \<comment> \<open>the first match of the compiled format from the start of the text, with what the
     match leaves over\<close>
  "regex_match s =
     (let ys = then_lit CHR ''-'' (re_Y s);
          ms = then_lit CHR ''-'' (then_re re_m ys);
          ds = then_re re_d ms;
          sp = concat (map (\<lambda>(v, r). map (Pair v) (re_spaces r)) ds);
          hs = then_lit CHR '':'' (then_re re_H sp);
          mins = then_lit CHR '':'' (then_re re_M hs);
          secs = then_re re_S mins
      in case secs of
           [] \<Rightarrow> None
         | ((((((y, mo), d), h), mi), sec), r) # _ \<Rightarrow> Some ((y, mo, d, h, mi, sec), r))"

definition is_leap :: "nat \<Rightarrow> bool" where
  "is_leap y = (y mod 4 = 0 \<and> (y mod 100 \<noteq> 0 \<or> y mod 400 = 0))"

definition days_in_month :: "nat \<Rightarrow> nat \<Rightarrow> nat" where
  "days_in_month y m =
     (if m = 2 then (if is_leap y then 29 else 28)
      else if m \<in> {4, 6, 9, 11} then 30 else 31)"

definition strptime :: "string \<Rightarrow> exn + datetime" where
  \<comment> \<open>\<^verbatim>\<open>datetime.strptime(s, "%Y-%m-%d %H:%M:%S")\<close>: \<^verbatim>\<open>ValueError\<close> when the text does not
     match, when unconverted text remains, and when the \<^verbatim>\<open>datetime\<close> constructor rejects
     the fields\<close>
  "strptime s =
     (case regex_match s of
        None \<Rightarrow> Inl ValueError
      | Some ((y, mo, d, h, mi, sec), r) \<Rightarrow>
          (if r \<noteq> [] then Inl ValueError
           else if 1 \<le> y \<and> d \<le> days_in_month y mo \<and> sec \<le> 59
           then Inr (y, mo, d, h, mi, sec) else Inl ValueError))"

subsection \<open>\<^verbatim>\<open>int\<close>, \<^verbatim>\<open>str\<close> and \<^verbatim>\<open>os.path.normpath\<close>\<close>

fun strip_left :: "string \<Rightarrow> string" where
  "strip_left [] = []"
| "strip_left (c # r) = (if is_space c then strip_left r else c # r)"

definition strip :: "string \<Rightarrow> string" where
  "strip s = rev (strip_left (rev (strip_left s)))"

fun digits_value :: "nat \<Rightarrow> bool \<Rightarrow> string \<Rightarrow> nat option" where
  \<comment> \<open>decimal digits, single underscores allowed between two digits; the flag says that
     the previous character was a digit\<close>
  "digits_value acc prev [] = (if prev then Some acc else None)"
| "digits_value acc prev (c # r) =
     (if is_digit c then digits_value (10 * acc + digit_val c) True r
      else if c = CHR ''_'' \<and> prev then
        (case r of [] \<Rightarrow> None | d # _ \<Rightarrow> (if is_digit d then digits_value acc False r else None))
      else None)"

definition int_of_str :: "string \<Rightarrow> exn + int" where
  "int_of_str s =
     (case strip s of
        [] \<Rightarrow> Inl ValueError
      | c # r \<Rightarrow>
          (if c = CHR ''-'' then
             (case digits_value 0 False r of None \<Rightarrow> Inl ValueError | Some n \<Rightarrow> Inr (- int n))
           else if c = CHR ''+'' then
             (case digits_value 0 False r of None \<Rightarrow> Inl ValueError | Some n \<Rightarrow> Inr (int n))
           else
             (case digits_value 0 False (c # r) of None \<Rightarrow> Inl ValueError | Some n \<Rightarrow> Inr (int n))))"

fun py_int :: "json \<Rightarrow> exn + int" where
  \<comment> \<open>\<^verbatim>\<open>int(v)\<close>\<close>
  "py_int (JInt n) = Inr n"
| "py_int (JBool b) = Inr (if b then 1 else 0)"
| "py_int (JStr s) = int_of_str s"
| "py_int JNull = Inl TypeError"
| "py_int (JList _) = Inl TypeError"
| "py_int (JObj _) = Inl TypeError"

function nat_digits :: "nat \<Rightarrow> string" where
  "nat_digits n = (if n < 10 then [digit_char n] else nat_digits (n div 10) @ [digit_char n])"
  by pat_completeness auto
termination
  by (relation "measure id") auto

declare nat_digits.simps [simp del]

definition str_int :: "int \<Rightarrow> string" where
  "str_int i = (if i < 0 then CHR ''-'' # nat_digits (nat (- i)) else nat_digits (nat i))"

fun split_on :: "char \<Rightarrow> string \<Rightarrow> string \<Rightarrow> string list" where
  \<comment> \<open>\<^verbatim>\<open>s.split(c)\<close>; the second argument is the component being read, reversed\<close>
  "split_on c cur [] = [rev cur]"
| "split_on c cur (x # r) = (if x = c then rev cur # split_on c [] r else split_on c (x # cur) r)"

fun join :: "string \<Rightarrow> string list \<Rightarrow> string" where
  "join sep [] = []"
| "join sep [x] = x"
| "join sep (x # y # r) = x @ sep @ join sep (y # r)"

fun norm_comps :: "bool \<Rightarrow> string list \<Rightarrow> string list \<Rightarrow> string list" where
  \<comment> \<open>the loop of \<^verbatim>\<open>posixpath.normpath\<close>; the second argument is \<^verbatim>\<open>new_comps\<close>\<close>
  "norm_comps initial new_comps [] = new_comps"
| "norm_comps initial new_comps (part # r) =
     (if part = [] \<or> part = ''.'' then norm_comps initial new_comps r
      else if part \<noteq> ''..'' \<or> (\<not> initial \<and> new_comps = []) \<or>
              (new_comps \<noteq> [] \<and> last new_comps = ''..'')
        then norm_comps initial (new_comps @ [part]) r
      else if new_comps \<noteq> [] then norm_comps initial (butlast new_comps) r
      else norm_comps initial new_comps r)"

definition normpath :: "string \<Rightarrow> string" where
  \<comment> \<open>\<^verbatim>\<open>os.path.normpath\<close> in its POSIX implementation\<close>
  "normpath path =
     (if path = [] then ''.''
      else
        let slashes =
              (if take 1 path = ''/'' then
                 (if take 2 path = ''//'' \<and> take 3 path \<noteq> ''///'' then 2 else 1)
               else (0::nat));
            p = replicate slashes CHR ''/'' @
                  join ''/'' (norm_comps (slashes \<noteq> 0) [] (split_on CHR ''/'' [] path))
        in if p = [] then ''.'' else p)"

subsection \<open>\<^verbatim>\<open>hashlib.sha256\<close>\<close>

text \<open>
  SHA-256 over bytes, as FIPS 180-4 defines it.  A \<^verbatim>\<open>hashlib\<close> hasher is the message fed
  to it so far: \<^verbatim>\<open>update\<close> appends, \<^verbatim>\<open>hexdigest\<close> hashes what was appended.
\<close>

unbundle bit_operations_syntax

definition is_prime :: "nat \<Rightarrow> bool" where
  "is_prime n = (1 < n \<and> list_all (\<lambda>d. n mod d \<noteq> 0) [2..<n])"

definition first_primes :: "nat \<Rightarrow> nat list" where
  \<comment> \<open>the first \<open>k\<close> primes, for \<open>k \<le> 64\<close>\<close>
  "first_primes k = take k (filter is_prime [2..<312])"

fun iroot :: "nat \<Rightarrow> nat \<Rightarrow> nat \<Rightarrow> nat \<Rightarrow> nat" where
  \<comment> \<open>the integer \<open>k\<close>-th root of \<open>n\<close>, one bit at a time from bit \<open>i - 1\<close> down\<close>
  "iroot k n 0 r = r"
| "iroot k n (Suc i) r = iroot k n i (if (r + 2 ^ i) ^ k \<le> n then r + 2 ^ i else r)"

definition K256 :: "32 word list" where
  \<comment> \<open>the first 32 bits of the fractional parts of the cube roots of the first 64 primes\<close>
  "K256 = map (\<lambda>p. of_nat (iroot 3 (p * 2 ^ 96) 36 0)) (first_primes 64)"

type_synonym sha_state =
  "32 word \<times> 32 word \<times> 32 word \<times> 32 word \<times> 32 word \<times> 32 word \<times> 32 word \<times> 32 word"

definition H256 :: sha_state where
  \<comment> \<open>the first 32 bits of the fractional parts of the square roots of the first 8 primes\<close>
  "H256 =
     (case map (\<lambda>p. of_nat (iroot 2 (p * 2 ^ 64) 36 0)) (first_primes 8) of
        [a, b, c, d, e, f, g, h] \<Rightarrow> (a, b, c, d, e, f, g, h)
      | _ \<Rightarrow> (0, 0, 0, 0, 0, 0, 0, 0))"

definition rotr :: "nat \<Rightarrow> 32 word \<Rightarrow> 32 word" where
  "rotr n x = word_rotr n x"

definition small_sigma0 :: "32 word \<Rightarrow> 32 word" where
  "small_sigma0 x = rotr 7 x XOR rotr 18 x XOR drop_bit 3 x"

definition small_sigma1 :: "32 word \<Rightarrow> 32 word" where
  "small_sigma1 x = rotr 17 x XOR rotr 19 x XOR drop_bit 10 x"

definition big_sigma0 :: "32 word \<Rightarrow> 32 word" where
  "big_sigma0 x = rotr 2 x XOR rotr 13 x XOR rotr 22 x"

definition big_sigma1 :: "32 word \<Rightarrow> 32 word" where
  "big_sigma1 x = rotr 6 x XOR rotr 11 x XOR rotr 25 x"

fun be_words :: "8 word list \<Rightarrow> 32 word list" where
  "be_words (a # b # c # d # r) =
     (push_bit 24 (ucast a) OR push_bit 16 (ucast b) OR push_bit 8 (ucast c) OR ucast d)
       # be_words r"
| "be_words _ = []"

fun extend_schedule :: "nat \<Rightarrow> 32 word list \<Rightarrow> 32 word list" where
  "extend_schedule 0 ws = ws"
| "extend_schedule (Suc n) ws =
     (let t = length ws
      in extend_schedule n
           (ws @ [small_sigma1 (ws ! (t - 2)) + ws ! (t - 7) +
                  small_sigma0 (ws ! (t - 15)) + ws ! (t - 16)]))"

fun sha_round :: "sha_state \<Rightarrow> 32 word \<times> 32 word \<Rightarrow> sha_state" where
  "sha_round (a, b, c, d, e, f, g, h) (k, w) =
     (let t1 = h + big_sigma1 e + ((e AND f) XOR (NOT e AND g)) + k + w;
          t2 = big_sigma0 a + ((a AND b) XOR (a AND c) XOR (b AND c))
      in (t1 + t2, a, b, c, d + t1, e, f, g))"

fun add_state :: "sha_state \<Rightarrow> sha_state \<Rightarrow> sha_state" where
  "add_state (a, b, c, d, e, f, g, h) (a', b', c', d', e', f', g', h') =
     (a + a', b + b', c + c', d + d', e + e', f + f', g + g', h + h')"

definition compress :: "sha_state \<Rightarrow> 8 word list \<Rightarrow> sha_state" where
  "compress st block =
     add_state st (foldl sha_round st (zip K256 (extend_schedule 48 (be_words block))))"

fun process_blocks :: "nat \<Rightarrow> 8 word list \<Rightarrow> sha_state \<Rightarrow> sha_state" where
  "process_blocks 0 bs st = st"
| "process_blocks (Suc n) bs st = process_blocks n (drop 64 bs) (compress st (take 64 bs))"

definition be64 :: "nat \<Rightarrow> 8 word list" where
  "be64 n = map (\<lambda>i. ucast (drop_bit (8 * (7 - i)) (of_nat n :: 64 word))) [0..<8]"

definition sha_pad :: "8 word list \<Rightarrow> 8 word list" where
  "sha_pad msg =
     msg @ [0x80] @ replicate ((64 - (length msg + 9) mod 64) mod 64) 0 @ be64 (8 * length msg)"

definition sha256 :: "8 word list \<Rightarrow> sha_state" where
  "sha256 msg = (let p = sha_pad msg in process_blocks (length p div 64) p H256)"

definition hex_digits :: string where
  "hex_digits = ''0123456789abcdef''"

definition hex_char :: "nat \<Rightarrow> char" where
  "hex_char n = hex_digits ! (n mod 16)"

definition hex32 :: "32 word \<Rightarrow> string" where
  "hex32 x = map (\<lambda>i. hex_char (unat (drop_bit (4 * (7 - i)) x))) [0..<8]"

fun hex_state :: "sha_state \<Rightarrow> string" where
  "hex_state (a, b, c, d, e, f, g, h) =
     hex32 a @ hex32 b @ hex32 c @ hex32 d @ hex32 e @ hex32 f @ hex32 g @ hex32 h"

type_synonym hasher = "8 word list"

definition sha256_new :: hasher where
  "sha256_new = []"

definition update :: "hasher \<Rightarrow> 8 word list \<Rightarrow> hasher" where
  "update h chunk = h @ chunk"

definition hexdigest :: "hasher \<Rightarrow> string" where
  "hexdigest h = hex_state (sha256 h)"


fun py_repr :: "json \<Rightarrow> string" where
  \<comment> \<open>\<^verbatim>\<open>repr(v)\<close>; strings are quoted without escapes\<close>
  "py_repr JNull = ''None''"
| "py_repr (JBool b) = (if b then ''True'' else ''False'')"
| "py_repr (JInt n) = str_int n"
| "py_repr (JStr s) = [CHR 0x27] @ s @ [CHR 0x27]"
| "py_repr (JList xs) = ''['' @ join '', '' (map py_repr xs) @ '']''"
| "py_repr (JObj kvs) =
     ''{'' @ join '', '' (map (\<lambda>(k, v). [CHR 0x27] @ k @ [CHR 0x27] @ '': '' @ py_repr v) kvs) @ ''}''"

definition py_str :: "json \<Rightarrow> string" where
  \<comment> \<open>\<^verbatim>\<open>str(v)\<close>, as an f-string uses it\<close>
  "py_str v = (case v of JStr s \<Rightarrow> s | _ \<Rightarrow> py_repr v)"

definition sort_newest_first :: "('a \<Rightarrow> datetime) \<Rightarrow> 'a list \<Rightarrow> 'a list" where
  \<comment> \<open>\<^verbatim>\<open>xs.sort(key=key, reverse=True)\<close> and \<^verbatim>\<open>sorted(xs, key=key, reverse=True)\<close>: a stable
     sort; elements with equal keys keep the order they had\<close>
  "sort_newest_first key xs = rev (sort_key key (rev xs))"

definition lift :: "exn + 'a \<Rightarrow> 'a io" where
  "lift r w = (r, w)"

subsection \<open>Files\<close>

definition open_rb :: "string \<Rightarrow> 8 word list io" where
  \<comment> \<open>\<^verbatim>\<open>open(path, 'rb')\<close>: the file object is the bytes still to be read\<close>
  "open_rb path w =
     (case map_of (files w) path of
        None \<Rightarrow> (Inl FileNotFoundError, w)
      | Some content \<Rightarrow> bind fallible (\<lambda>_. return content) w)"

definition path_exists :: "string \<Rightarrow> world \<Rightarrow> bool" where
  "path_exists path w = (map_of (files w) path \<noteq> None)"

definition open_r :: "string \<Rightarrow> index_data io" where
  \<comment> \<open>\<^verbatim>\<open>open(path, "r", encoding='utf-8')\<close> on a file of the index directory\<close>
  "open_r path w =
     (case map_of (index_files w) path of
        None \<Rightarrow> (Inl FileNotFoundError, w)
      | Some d \<Rightarrow> bind fallible (\<lambda>_. return d) w)"

definition json_load :: "index_data \<Rightarrow> tracked_files io" where
  "json_load d = (case d of Document tf \<Rightarrow> return tf | _ \<Rightarrow> raise JSONDecodeError)"

definition open_w :: "string \<Rightarrow> unit io" where
  \<comment> \<open>\<^verbatim>\<open>open(path, "w", encoding='utf-8')\<close>: creates or truncates the file\<close>
  "open_w path =
     bind fallible
       (\<lambda>_ w. (Inr (), w\<lparr>index_files := AList.update path Incomplete (index_files w)\<rparr>))"

definition json_dump :: "tracked_files \<Rightarrow> string \<Rightarrow> unit io" where
  \<comment> \<open>\<^verbatim>\<open>json.dump\<close> and the closing of the file; a failure leaves the text incomplete\<close>
  "json_dump tf path =
     bind fallible
       (\<lambda>_ w. (Inr (), w\<lparr>index_files := AList.update path (Document tf) (index_files w)\<rparr>))"

definition os_replace :: "string \<Rightarrow> string \<Rightarrow> unit io" where
  \<comment> \<open>\<^verbatim>\<open>os.replace\<close> and \<^verbatim>\<open>os.rename\<close>: one atomic step, or no change at all\<close>
  "os_replace src dst =
     bind fallible
       (\<lambda>_ w. case map_of (index_files w) src of
                 None \<Rightarrow> (Inl FileNotFoundError, w)
               | Some d \<Rightarrow>
                   (Inr (), w\<lparr>index_files :=
                                 AList.update dst d (AList.delete src (index_files w))\<rparr>))"

definition os_remove :: "string \<Rightarrow> unit io" where
  "os_remove path =
     bind fallible
       (\<lambda>_ w. case map_of (index_files w) path of
                 None \<Rightarrow> (Inl FileNotFoundError, w)
               | Some d \<Rightarrow> (Inr (), w\<lparr>index_files := AList.delete path (index_files w)\<rparr>))"

definition index_exists :: "string \<Rightarrow> world \<Rightarrow> bool" where
  "index_exists path w = (map_of (index_files w) path \<noteq> None)"

definition makedirs_logs :: "unit io" where
  \<comment> \<open>\<^verbatim>\<open>os.makedirs(log_dir, exist_ok=True)\<close>\<close>
  "makedirs_logs = bind fallible (\<lambda>_ w. (Inr (), w\<lparr>logs_dir := True\<rparr>))"

definition append_log :: "string \<Rightarrow> unit io" where
  \<comment> \<open>opening the log file for appending and writing one line\<close>
  "append_log line = bind fallible (\<lambda>_ w. (Inr (), w\<lparr>error_log := error_log w @ [line]\<rparr>))"

section \<open>\<^verbatim>\<open>utils/time_utils.py\<close>\<close>

text \<open>
  A call passes keyword arguments; no call in the code passes positional ones.
  \<^verbatim>\<open>get_formatted_time\<close> is declared without parameters, so a call with any keyword
  argument raises \<^verbatim>\<open>TypeError\<close> before its body runs.
\<close>

type_synonym kwargs = "(string \<times> json) list"

definition get_formatted_time :: "kwargs \<Rightarrow> string io" where
  "get_formatted_time kw w =
     (if kw \<noteq> [] then (Inl TypeError, w) else (Inr (strftime (utcnow w)), w))"

text \<open>
  The names \<^verbatim>\<open>version_manager.py\<close> imports from \<^verbatim>\<open>utils.time_utils\<close> (line 10).  Python
  looks a module-level name up when the call runs, so the functions of the version
  manager take the bindings as an argument.  \<open>time_utils_py\<close> is what the source file
  provides: it defines no \<^verbatim>\<open>get_current_username\<close>, and the model lets a call of that
  name raise.
\<close>

record time_utils =
  formatted_time :: "kwargs \<Rightarrow> string io"
  current_username :: "kwargs \<Rightarrow> string io"

definition time_utils_py :: time_utils where
  "time_utils_py =
     \<lparr>formatted_time = get_formatted_time, current_username = (\<lambda>kw. raise ImportError)\<rparr>"

definition use_utc :: kwargs where
  "use_utc = [(''use_utc'', JBool True)]"

section \<open>\<^verbatim>\<open>core/version_manager.py\<close>\<close>

text \<open>
  Console output is kept for the warning lines and for what \<^verbatim>\<open>_log_error\<close> prints; the
  informational \<^verbatim>\<open>print\<close> calls are left out.  The text of an exception is rendered by
  its class name.
\<close>

record settings_manager =
  settings :: "(string \<times> json) list"

record version_manager =
  backup_folder :: string
  settings_manager :: "settings_manager option"
  tracked_files_path :: string

definition log_error :: "time_utils \<Rightarrow> string \<Rightarrow> unit io" where
  \<comment> \<open>\<^verbatim>\<open>_log_error\<close>, lines 379-398\<close>
  "log_error T error_message =
     try_except
       (bind makedirs_logs (\<lambda>_.
        bind (formatted_time T use_utc) (\<lambda>current_time_utc.
        bind (current_username T []) (\<lambda>username.
        bind (print (''ERROR logged: '' @ error_message)) (\<lambda>_.
        append_log (''['' @ current_time_utc @ ''] ['' @ username @ ''] '' @ error_message))))))
       (\<lambda>log_e.
        bind (print (''!!! CRITICAL: Failed to write to error log file: '' @ exn_text log_e)) (\<lambda>_.
        print (''Original error was: '' @ error_message)))"

function read_chunks :: "8 word list \<Rightarrow> hasher \<Rightarrow> hasher io" where
  \<comment> \<open>\<^verbatim>\<open>while chunk := file.read(8192): hasher.update(chunk)\<close>\<close>
  "read_chunks file hasher w =
     (case fallible w of
        (Inl e, w1) \<Rightarrow> (Inl e, w1)
      | (Inr u, w1) \<Rightarrow>
          (if take 8192 file = [] then (Inr hasher, w1)
           else read_chunks (drop 8192 file) (update hasher (take 8192 file)) w1))"
  by pat_completeness auto
termination
  by (relation "measure (\<lambda>(file, hasher, w). length file)") auto

declare read_chunks.simps [simp del]

definition calculate_file_hash :: "time_utils \<Rightarrow> string \<Rightarrow> string io" where
  \<comment> \<open>lines 23-37\<close>
  "calculate_file_hash T file_path =
     try_except
       (bind (open_rb file_path) (\<lambda>file.
        bind (read_chunks file sha256_new) (\<lambda>hasher.
        return (hexdigest hasher))))
       (\<lambda>e. if e = FileNotFoundError
            then bind (log_error T (''File not found when calculating hash: '' @ file_path))
                   (\<lambda>_. raise e)
            else bind (log_error T (''Failed to calculate file hash for '' @ file_path @ '': ''
                                     @ exn_text e))
                   (\<lambda>_. raise e))"

definition version_time :: "version_info \<Rightarrow> exn + datetime" where
  \<comment> \<open>\<^verbatim>\<open>datetime.strptime(info["timestamp"], "%Y-%m-%d %H:%M:%S")\<close>; a missing key raises
     \<^verbatim>\<open>KeyError\<close>\<close>
  "version_time info = (case timestamp info of None \<Rightarrow> Inl KeyError | Some ts \<Rightarrow> strptime ts)"

fun timestamp_keys ::
  "(string \<times> version_info) list \<Rightarrow> exn + ((string \<times> version_info) \<times> datetime) list" where
  \<comment> \<open>the sort keys of line 67, computed for every element in order before any comparison\<close>
  "timestamp_keys [] = Inr []"
| "timestamp_keys (x # xs) =
     (case version_time (snd x) of
        Inl e \<Rightarrow> Inl e
      | Inr dt \<Rightarrow>
          (case timestamp_keys xs of Inl e \<Rightarrow> Inl e | Inr ks \<Rightarrow> Inr ((x, dt) # ks)))"

definition sorted_by_timestamp ::
  "(string \<times> version_info) list \<Rightarrow> exn + (string \<times> version_info) list" where
  "sorted_by_timestamp xs =
     (case timestamp_keys xs of
        Inl e \<Rightarrow> Inl e
      | Inr ks \<Rightarrow> Inr (map fst (sort_newest_first snd ks)))"

definition has_file_changed ::
  "time_utils \<Rightarrow> string \<Rightarrow> tracked_files \<Rightarrow> (bool \<times> string \<times> string) io" where
  \<comment> \<open>lines 39-77\<close>
  "has_file_changed T file_path tracked_files =
     try_except
       (bind (calculate_file_hash T file_path) (\<lambda>current_hash.
        let normalized_path = normpath file_path in
        case map_of tracked_files normalized_path of
          None \<Rightarrow> return (True, current_hash, [])
        | Some entry \<Rightarrow>
            (let vs = (case versions entry of None \<Rightarrow> [] | Some v \<Rightarrow> v) in
             if vs = [] then return (True, current_hash, [])
             else
               let active_versions = filter (\<lambda>(hash_id, info). \<not> is_deleted info) vs in
               if active_versions = [] then return (True, current_hash, [])
               else
                 bind (lift (sorted_by_timestamp active_versions)) (\<lambda>sorted_versions.
                 case sorted_versions of
                   [] \<Rightarrow> raise IndexError
                 | latest_active_version # _ \<Rightarrow>
                     (let last_active_hash = fst latest_active_version
                      in return (current_hash \<noteq> last_active_hash, current_hash,
                                 last_active_hash))))))
       (\<lambda>e.
        bind (log_error T (''Failed to check file changes for '' @ file_path @ '': '' @ exn_text e))
          (\<lambda>_ w.
             if path_exists file_path w
             then bind (calculate_file_hash T file_path) (\<lambda>h. return (True, h, [])) w
             else return (True, [], []) w))"

definition load_tracked_files :: "time_utils \<Rightarrow> version_manager \<Rightarrow> tracked_files io" where
  \<comment> \<open>lines 80-100\<close>
  "load_tracked_files T vm =
     try_except
       (bind (open_r (tracked_files_path vm)) json_load)
       (\<lambda>e.
        if e = FileNotFoundError then return []
        else if e = JSONDecodeError then
          bind (log_error T (''Error: tracked_files.json at '' @ tracked_files_path vm @
                             '' is corrupted. BACKING UP and starting fresh.'')) (\<lambda>_.
          bind (try_except
                  (bind (formatted_time T use_utc) (\<lambda>t.
                   let corrupted_backup_path =
                         tracked_files_path vm @ ''.corrupted_'' @
                         map (\<lambda>c. if c = CHR '':'' then CHR ''-'' else c) t
                   in os_replace (tracked_files_path vm) corrupted_backup_path))
                  (\<lambda>backup_e.
                   log_error T (''Failed to backup corrupted tracked_files.json: '' @
                                exn_text backup_e))) (\<lambda>_.
          return []))
        else
          bind (log_error T (''Unexpected error loading '' @ tracked_files_path vm @ '': '' @
                             exn_text e)) (\<lambda>_.
          return []))"

definition save_tracked_files :: "time_utils \<Rightarrow> version_manager \<Rightarrow> tracked_files \<Rightarrow> unit io" where
  \<comment> \<open>lines 102-119\<close>
  "save_tracked_files T vm tracked_files =
     (let temp_path = tracked_files_path vm @ ''.tmp'' in
      try_except
        (bind (open_w temp_path) (\<lambda>_.
         bind (json_dump tracked_files temp_path) (\<lambda>_.
         os_replace temp_path (tracked_files_path vm))))
        (\<lambda>e.
         bind (log_error T (''Failed to save tracked files to '' @ tracked_files_path vm @ '': '' @
                            exn_text e)) (\<lambda>_.
         bind (\<lambda>w. if index_exists temp_path w
                   then try_except (os_remove temp_path)
                          (\<lambda>rm_e. log_error T (''Failed to remove temporary save file '' @
                                                temp_path @ '': '' @ exn_text rm_e)) w
                   else return () w) (\<lambda>_.
         raise e))))"

definition max_backups_setting :: "settings_manager \<Rightarrow> json" where
  \<comment> \<open>\<^verbatim>\<open>self.settings_manager.settings.get("max_backups", 3)\<close>\<close>
  "max_backups_setting sm =
     (case map_of (settings sm) ''max_backups'' of None \<Rightarrow> JInt 3 | Some v \<Rightarrow> v)"

definition max_backups_block :: "version_manager \<Rightarrow> int io" where
  \<comment> \<open>lines 211-225 of \<^verbatim>\<open>_enforce_backup_limit\<close>: the value of \<^verbatim>\<open>max_backups\<close> after the block\<close>
  "max_backups_block vm =
     (case settings_manager vm of
        None \<Rightarrow>
          bind (print ''Warning: SettingsManager not available in VersionManager. Using default max_backups=3.'')
            (\<lambda>_. return 3)
      | Some sm \<Rightarrow>
          (try_except
                (bind (lift (py_int (max_backups_setting sm))) (\<lambda>max_backups.
                 if max_backups \<le> 0
                 then bind (print (''Warning: max_backups setting is '' @ str_int max_backups @
                                   ''. Using default of 3.''))
                        (\<lambda>_. return 3)
                 else return max_backups))
                (\<lambda>e. if is_ValueError e \<or> e = TypeError
                     then bind (print (''Warning: Invalid max_backups setting ('' @ [CHR 0x27] @
                                       py_str (max_backups_setting sm) @ [CHR 0x27] @
                                       ''). Using default of 3.''))
                            (\<lambda>_. return 3)
                     else raise e)))"

fun scan_versions ::
  "time_utils \<Rightarrow> (string \<Rightarrow> string \<Rightarrow> string) \<Rightarrow> (string \<Rightarrow> string) \<Rightarrow>
   (string \<times> version_info) list \<Rightarrow> (string \<times> version_info \<times> datetime) list io" where
  \<comment> \<open>the loop over \<^verbatim>\<open>versions.items()\<close> of lines 247-259 and of lines 352-362; the two
     copies differ in the texts they log, which are the second and third argument\<close>
  "scan_versions T invalid_msg missing_msg [] = return []"
| "scan_versions T invalid_msg missing_msg ((hash_id, info) # rest) =
     bind (if \<not> is_deleted info then
             (case timestamp info of
                None \<Rightarrow> bind (log_error T (missing_msg hash_id)) (\<lambda>_. return [])
              | Some ts_str \<Rightarrow>
                  (if ts_str \<noteq> [] then
                     try_except
                       (bind (lift (strptime ts_str)) (\<lambda>ts_dt. return [(hash_id, info, ts_dt)]))
                       (\<lambda>e. if is_ValueError e
                            then bind (log_error T (invalid_msg ts_str hash_id)) (\<lambda>_. return [])
                            else raise e)
                   else bind (log_error T (missing_msg hash_id)) (\<lambda>_. return [])))
           else return [])
       (\<lambda>found. bind (scan_versions T invalid_msg missing_msg rest) (\<lambda>more.
        return (found @ more)))"

fun mark_versions ::
  "(string \<times> version_info \<times> datetime) list \<Rightarrow>
   (string \<times> version_info) list \<times> string list \<times> bool \<Rightarrow>
   exn + (string \<times> version_info) list \<times> string list \<times> bool" where
  \<comment> \<open>the loop of lines 279-285 over \<^verbatim>\<open>versions_to_mark_deleted\<close>; the state is
     \<^verbatim>\<open>versions\<close>, \<^verbatim>\<open>hashes_marked_deleted\<close> and \<^verbatim>\<open>modified_metadata\<close>\<close>
  "mark_versions [] st = Inr st"
| "mark_versions ((version_hash, info, dt) # rest) (vs, hashes_marked_deleted, modified_metadata) =
     (case map_of vs version_hash of
        None \<Rightarrow> Inl KeyError
      | Some current \<Rightarrow>
          (if \<not> is_deleted current
           then mark_versions rest
                  (AList.update version_hash (current\<lparr>deleted := Some True\<rparr>) vs,
                   hashes_marked_deleted @ [version_hash], True)
           else mark_versions rest (vs, hashes_marked_deleted, modified_metadata)))"

definition enforce_backup_limit :: "time_utils \<Rightarrow> version_manager \<Rightarrow> string \<Rightarrow> string list io" where
  \<comment> \<open>\<^verbatim>\<open>_enforce_backup_limit\<close>, lines 197-303\<close>
  "enforce_backup_limit T vm file_path =
     try_except
       (bind (max_backups_block vm) (\<lambda>max_backups.
        bind (formatted_time T use_utc) (\<lambda>current_time_utc.
        bind (current_username T []) (\<lambda>username.
        bind (load_tracked_files T vm) (\<lambda>tracked_files.
        let normalized_path = normpath file_path in
        case map_of tracked_files normalized_path of
          None \<Rightarrow> return []
        | Some entry \<Rightarrow>
            (case versions entry of
               None \<Rightarrow> return []
             | Some vs \<Rightarrow>
                 if vs = [] then return []
                 else
                   bind (scan_versions T
                           (\<lambda>ts_str hash_id. ''Invalid timestamp format '' @ [CHR 0x27] @ ts_str @
                              [CHR 0x27] @ '' for version '' @ hash_id @ '' of '' @
                              normalized_path @ ''. Skipping in sort.'')
                           (\<lambda>hash_id. ''Missing timestamp for active version '' @ hash_id @
                              '' of '' @ normalized_path @ ''. Skipping in sort.'')
                           vs) (\<lambda>collected.
                   if collected = [] then return []
                   else
                     let active_versions = sort_newest_first (\<lambda>(h, i, dt). dt) collected in
                     if int (length active_versions) \<le> max_backups then return []
                     else
                       let versions_to_mark_deleted = drop (nat max_backups) active_versions in
                       bind (lift (mark_versions versions_to_mark_deleted (vs, [], False)))
                         (\<lambda>(vs', hashes_marked_deleted, modified_metadata).
                          if modified_metadata then
                            bind (save_tracked_files T vm
                                    (AList.update normalized_path
                                       (entry\<lparr>versions := Some vs',
                                              last_updated := Some current_time_utc\<rparr>)
                                       tracked_files))
                              (\<lambda>_. return hashes_marked_deleted)
                          else return hashes_marked_deleted))))))))
       (\<lambda>e.
        bind (log_error T (''Failed to enforce backup limit for '' @ file_path @ '': '' @ exn_text e))
          (\<lambda>_. return []))"

definition add_version ::
  "time_utils \<Rightarrow> version_manager \<Rightarrow> string \<Rightarrow> string \<Rightarrow> json \<Rightarrow> string \<Rightarrow> string list io" where
  \<comment> \<open>lines 121-195\<close>
  "add_version T vm file_path version_hash meta commit_msg =
     try_except
       (bind (formatted_time T use_utc) (\<lambda>current_time_utc.
        bind (current_username T []) (\<lambda>user.
        bind (load_tracked_files T vm) (\<lambda>tracked_files.
        let normalized_path = normpath file_path;
            entry0 = (case map_of tracked_files normalized_path of
                        None \<Rightarrow> \<lparr>versions = Some [], last_updated = Some current_time_utc\<rparr>
                      | Some entry \<Rightarrow> entry);
            vs = (case versions entry0 of None \<Rightarrow> [] | Some v \<Rightarrow> v);
            existing_version_info = map_of vs version_hash;
            vs' = (case existing_version_info of
                     None \<Rightarrow>
                       AList.update version_hash
                         \<lparr>timestamp = Some current_time_utc, metadata = Some meta,
                          username = Some user, commit_message = Some commit_msg,
                          deleted = Some False\<rparr> vs
                   | Some info \<Rightarrow>
                       (if info \<noteq> empty_info then
                          AList.update version_hash
                            (info\<lparr>timestamp := Some current_time_utc,
                                  username := Some user,
                                  commit_message :=
                                    (if commit_msg \<noteq> [] then Some commit_msg
                                     else commit_message info),
                                  metadata := Some meta,
                                  deleted := Some False\<rparr>) vs
                        else
                          AList.update version_hash
                            \<lparr>timestamp = Some current_time_utc, metadata = Some meta,
                             username = Some user, commit_message = Some commit_msg,
                             deleted = Some False\<rparr> vs));
            tracked_files' =
              AList.update normalized_path
                (entry0\<lparr>versions := Some vs', last_updated := Some current_time_utc\<rparr>)
                tracked_files
        in bind (save_tracked_files T vm tracked_files') (\<lambda>_.
           enforce_backup_limit T vm normalized_path)))))
       (\<lambda>e.
        bind (log_error T (''Failed to add version for '' @ file_path @ '' (hash: '' @
                           version_hash @ ''): '' @ exn_text e))
          (\<lambda>_. return []))"

definition get_active_file_versions ::
  "time_utils \<Rightarrow> version_manager \<Rightarrow> string \<Rightarrow> (string \<times> version_info) list io" where
  \<comment> \<open>lines 334-376\<close>
  "get_active_file_versions T vm file_path =
     try_except
       (bind (load_tracked_files T vm) (\<lambda>tracked_files.
        let normalized_path = normpath file_path in
        case map_of tracked_files normalized_path of
          None \<Rightarrow> return []
        | Some entry \<Rightarrow>
            (let vs = (case versions entry of None \<Rightarrow> [] | Some v \<Rightarrow> v) in
             if vs = [] then return []
             else
               bind (scan_versions T
                       (\<lambda>ts_str hash_id. ''Skipping version '' @ hash_id @ '' for '' @
                          normalized_path @ '' due to invalid timestamp '' @ [CHR 0x27] @ ts_str @
                          [CHR 0x27] @ '' in get_active_file_versions.'')
                       (\<lambda>hash_id. ''Skipping version '' @ hash_id @ '' for '' @ normalized_path @
                          '' due to missing timestamp in get_active_file_versions.'')
                       vs) (\<lambda>active_versions_with_dt.
               if active_versions_with_dt = [] then return []
               else
                 return (map (\<lambda>(hash_id, info, dt). (hash_id, info))
                           (sort_newest_first (\<lambda>(h, i, dt). dt) active_versions_with_dt))))))
       (\<lambda>e.
        bind (log_error T (''Failed to get active file versions for '' @ file_path @ '': '' @
                           exn_text e))
          (\<lambda>_. return []))"

section \<open>Example states\<close>

text \<open>
  Bindings that the source does not provide, for statements about handlers that a run
  with \<open>time_utils_py\<close> never reaches: a \<^verbatim>\<open>get_formatted_time\<close> that accepts
  \<^verbatim>\<open>use_utc\<close>, and a \<^verbatim>\<open>get_current_username\<close> that returns the login name.
\<close>

definition time_utils_utc :: time_utils where
  "time_utils_utc =
     \<lparr>formatted_time = (\<lambda>kw w. (Inr (strftime (utcnow w)), w)),
      current_username = (\<lambda>kw w. (Inr (login w), w))\<rparr>"

definition vm0 :: version_manager where
  "vm0 = \<lparr>backup_folder = ''backups'',
          settings_manager = Some \<lparr>settings = [(''max_backups'', JInt 2)]\<rparr>,
          tracked_files_path = ''tracked_files.json''\<rparr>"

definition world0 :: world where
  "world0 = \<lparr>utcnow = (2025, 5, 1, 12, 0, 0), login = ''dev'',
             files = [(''notes.txt'', [0x61, 0x62, 0x63]), (''copy/notes.bak'', [0x61, 0x62, 0x63])],
             index_files = [], logs_dir = False, error_log = [], console = [], faults = []\<rparr>"

definition active_info :: "string \<Rightarrow> string \<Rightarrow> version_info" where
  "active_info ts msg =
     \<lparr>timestamp = Some ts, metadata = Some (JObj [(''size'', JInt 3)]), username = Some ''dev'',
      commit_message = Some msg, deleted = Some False\<rparr>"

definition three_versions :: tracked_files where
  "three_versions =
     [(''notes.txt'',
       \<lparr>versions = Some [(''aaa'', active_info ''2025-04-01 09:00:00'' ''v1''),
                         (''bbb'', active_info ''2025-04-02 09:00:00'' ''v2''),
                         (''ccc'', active_info ''2025-04-03 09:00:00'' ''v3'')],
        last_updated = Some ''2025-04-03 09:00:00''\<rparr>)]"

definition world_three :: world where
  "world_three = world0\<lparr>index_files := [(''tracked_files.json'', Document three_versions)]\<rparr>"

definition retired_version :: tracked_files where
  "retired_version =
     [(''notes.txt'',
       \<lparr>versions = Some [(''aaa'', (active_info ''2025-04-01 09:00:00'' ''v1'')\<lparr>deleted := Some True\<rparr>),
                         (''bbb'', active_info ''2025-04-02 09:00:00'' ''v2'')],
        last_updated = Some ''2025-04-02 09:00:00''\<rparr>)]"

definition world_retired :: world where
  "world_retired = world0\<lparr>index_files := [(''tracked_files.json'', Document retired_version)]\<rparr>"

definition world_corrupt :: world where
  "world_corrupt = world0\<lparr>index_files := [(''tracked_files.json'', Unparsable ''{ notes.txt: ['')]\<rparr>"


definition versions_of :: "tracked_files \<Rightarrow> string \<Rightarrow> (string \<times> version_info) list" where
  \<comment> \<open>the \<^verbatim>\<open>versions\<close> dictionary of a path in a mapping; empty when the path or the key is
     missing\<close>
  "versions_of tracked path =
     (case map_of tracked path of
        None \<Rightarrow> []
      | Some entry \<Rightarrow> (case versions entry of None \<Rightarrow> [] | Some vs \<Rightarrow> vs))"

definition stored_flags :: "version_manager \<Rightarrow> world \<Rightarrow> string \<Rightarrow> (string \<times> bool) list" where
  \<comment> \<open>the hashes that the index file records for a path, each with its \<^verbatim>\<open>deleted\<close> flag\<close>
  "stored_flags vm w path =
     (case map_of (index_files w) (tracked_files_path vm) of
        Some (Document tracked) \<Rightarrow> map (\<lambda>(h, info). (h, is_deleted info)) (versions_of tracked path)
      | _ \<Rightarrow> [])"

definition parsed_timestamp :: "version_info \<Rightarrow> datetime option" where
  \<comment> \<open>the time of an entry whose \<^verbatim>\<open>timestamp\<close> is present, not empty and accepted by
     \<^verbatim>\<open>strptime\<close>\<close>
  "parsed_timestamp info =
     (case timestamp info of
        None \<Rightarrow> None
      | Some ts \<Rightarrow>
          (if ts = [] then None
           else (case strptime ts of Inl e \<Rightarrow> None | Inr dt \<Rightarrow> Some dt)))"

definition listed :: "version_info \<Rightarrow> bool" where
  \<comment> \<open>not deleted, and with a well-formed timestamp\<close>
  "listed info = (\<not> is_deleted info \<and> parsed_timestamp info \<noteq> None)"

definition time_key :: "version_info \<Rightarrow> datetime" where
  "time_key info = (case parsed_timestamp info of None \<Rightarrow> (0, 0, 0, 0, 0, 0) | Some dt \<Rightarrow> dt)"

definition with_time ::
  "(string \<times> version_info) list \<Rightarrow> (string \<times> version_info \<times> datetime) list" where
  "with_time vs =
     concat (map (\<lambda>(h, info).
                    if is_deleted info then []
                    else (case parsed_timestamp info of None \<Rightarrow> [] | Some dt \<Rightarrow> [(h, info, dt)]))
                 vs)"

definition world_no_space :: world where
  \<comment> \<open>the temporary file opens; writing the text fails; the removal of the file fails too\<close>
  "world_no_space = world_three\<lparr>faults := [False, True, False, True]\<rparr>"

definition active_of :: "tracked_files \<Rightarrow> string \<Rightarrow> (string \<times> version_info) list" where
  \<comment> \<open>the entries of a path that are not deleted, in the order of the dictionary\<close>
  "active_of tracked path = filter (\<lambda>(hash_id, info). \<not> is_deleted info) (versions_of tracked path)"

definition undated :: tracked_files where
  \<comment> \<open>one active version, recorded under the digest of the bytes of \<open>notes.txt\<close> in \<open>world0\<close>,
     with a timestamp that is no date\<close>
  "undated =
     [(''notes.txt'',
       \<lparr>versions = Some [(hexdigest [0x61, 0x62, 0x63], active_info ''yesterday'' ''v1'')],
        last_updated = None\<rparr>)]"

section \<open>Properties\<close>

subsection \<open>Error reporting and the chunked read\<close>

lemma fallible_no_fault: "faults w = [] \<Longrightarrow> fallible w = (Inr (), w)"
  by (simp add: fallible_def fault_now_def fault_taken_def)

lemma log_error_returns: "\<exists>w'. log_error T msg w = (Inr (), w')"
  by (auto simp: log_error_def try_except_def bind_def print_def split: prod.splits sum.splits)


lemma read_chunks_result:
  "read_chunks bs h w = (Inr h', w') \<Longrightarrow> h' = h @ bs"
proof (induction bs h w rule: read_chunks.induct)
  case (1 bs hasher w)
  then show ?case
    by (subst (asm) (2) read_chunks.simps)
       (auto simp: update_def split: prod.splits sum.splits if_splits)
qed

lemma read_chunks_no_fault:
  "faults w = [] \<Longrightarrow> read_chunks bs h w = (Inr (h @ bs), w)"
proof (induction bs h w rule: read_chunks.induct)
  case (1 bs hasher w)
  have f: "fallible w = (Inr (), w)" using 1(2) by (rule fallible_no_fault)
  show ?case
  proof (cases "take 8192 bs = []")
    case True
    then show ?thesis using f by (subst read_chunks.simps) auto
  next
    case False
    have "read_chunks (drop 8192 bs) (update hasher (take 8192 bs)) w =
            (Inr (update hasher (take 8192 bs) @ drop 8192 bs), w)"
      using 1(1)[OF f[symmetric] refl False 1(2)] .
    then show ?thesis using f False by (subst read_chunks.simps) (simp add: update_def)
  qed
qed

subsection \<open>Hashing\<close>

lemma hex_char_lower: "hex_char n \<in> set hex_digits"
proof -
  have "n mod 16 < length hex_digits" by (simp add: hex_digits_def)
  then show ?thesis unfolding hex_char_def by (rule nth_mem)
qed

lemma hex32_props: "length (hex32 x) = 8 \<and> set (hex32 x) \<subseteq> set hex_digits"
  using hex_char_lower by (auto simp: hex32_def)

lemma hex_state_props:
  "length (hex_state st) = 64 \<and> set (hex_state st) \<subseteq> set hex_digits"
proof -
  obtain a b c d e f g h where st: "st = (a, b, c, d, e, f, g, h)"
    by (rule hex_state.cases)
  show ?thesis unfolding st hex_state.simps using hex32_props by simp
qed

lemma reraise_fst: "fst (bind (log_error T msg) (\<lambda>_. raise e) w) = Inl e"
  using log_error_returns[of T msg w] by (auto simp: bind_def raise_def)

lemma calculate_file_hash_returns:
  assumes r: "fst (calculate_file_hash T path w) = Inr d" and c: "map_of (files w) path = Some content"
  shows "d = hex_state (sha256 content)"
proof -
  define body where "body = bind (open_rb path) (\<lambda>file.
        bind (read_chunks file sha256_new) (\<lambda>hasher. return (hexdigest hasher)))"
  obtain rb wb where b: "body w = (rb, wb)" by force
  show ?thesis
  proof (cases rb)
    case (Inl e)
    have "fst (calculate_file_hash T path w) = Inl e"
      unfolding calculate_file_hash_def body_def[symmetric] try_except_def
      using b Inl by (simp add: reraise_fst)
    with r show ?thesis by simp
  next
    case (Inr x)
    have "fst (calculate_file_hash T path w) = Inr x"
      unfolding calculate_file_hash_def body_def[symmetric] try_except_def
      using b Inr by simp
    with r have dx: "d = x" by simp
    obtain w1 where o: "open_rb path w = (Inr content, w1)"
      using b Inr c unfolding body_def bind_def open_rb_def return_def
      by (auto split: prod.splits sum.splits)
    obtain h where rc: "read_chunks content sha256_new w1 = (Inr h, wb)" and xh: "x = hexdigest h"
      using b Inr o unfolding body_def bind_def return_def
      by (auto split: prod.splits sum.splits)
    have "h = sha256_new @ content" using read_chunks_result[OF rc] .
    then show ?thesis using dx xh by (simp add: hexdigest_def sha256_new_def)
  qed
qed

lemma calculate_file_hash_no_fault:
  assumes f: "faults w = []" and c: "map_of (files w) path = Some content"
  shows "calculate_file_hash T path w = (Inr (hex_state (sha256 content)), w)"
proof -
  have fw: "fallible w = (Inr (), w)" using f by (rule fallible_no_fault)
  have o: "open_rb path w = (Inr content, w)"
    using c fw by (simp add: open_rb_def bind_def return_def)
  have rc: "read_chunks content [] w = (Inr content, w)"
    using read_chunks_no_fault[OF f, of content "[]"] by simp
  show ?thesis
    unfolding calculate_file_hash_def try_except_def
    by (simp add: bind_def o rc return_def hexdigest_def sha256_new_def)
qed

text \<open>
  Claim C10.  The digest that \<^verbatim>\<open>calculate_file_hash\<close> returns depends on the bytes of the
  file only.  When two paths (in one world or in two, with any bindings of the imported
  names) hold the same content, every call that returns gives the same text: the
  SHA-256 of that content, although the loop feeds it to the hasher in chunks of 8192
  bytes.  A call returns whenever no read fails.  The digest has 64 characters, each a
  lower-case hexadecimal digit.
\<close>

theorem calculate_file_hash_content_only:
  assumes "map_of (files w1) p1 = Some content" and "map_of (files w2) p2 = Some content"
  shows "(faults w1 = [] \<longrightarrow> fst (calculate_file_hash T1 p1 w1) = Inr (hex_state (sha256 content))) \<and>
         (faults w2 = [] \<longrightarrow> fst (calculate_file_hash T2 p2 w2) = Inr (hex_state (sha256 content))) \<and>
         (\<forall>d1 d2. fst (calculate_file_hash T1 p1 w1) = Inr d1 \<and>
                  fst (calculate_file_hash T2 p2 w2) = Inr d2 \<longrightarrow>
                  d1 = d2 \<and> d1 = hex_state (sha256 content)) \<and>
         length (hex_state (sha256 content)) = 64 \<and>
         set (hex_state (sha256 content)) \<subseteq> set hex_digits"
proof (intro conjI allI impI)
  show "fst (calculate_file_hash T1 p1 w1) = Inr (hex_state (sha256 content))" if "faults w1 = []"
    using calculate_file_hash_no_fault[OF that assms(1)] by simp
  show "fst (calculate_file_hash T2 p2 w2) = Inr (hex_state (sha256 content))" if "faults w2 = []"
    using calculate_file_hash_no_fault[OF that assms(2)] by simp
  fix d1 d2
  assume h: "fst (calculate_file_hash T1 p1 w1) = Inr d1 \<and>
             fst (calculate_file_hash T2 p2 w2) = Inr d2"
  have e1: "d1 = hex_state (sha256 content)"
    using calculate_file_hash_returns[OF conjunct1[OF h] assms(1)] .
  have e2: "d2 = hex_state (sha256 content)"
    using calculate_file_hash_returns[OF conjunct2[OF h] assms(2)] .
  show "d1 = d2" using e1 e2 by simp
  show "d1 = hex_state (sha256 content)" by (rule e1)
next
  show "length (hex_state (sha256 content)) = 64" using hex_state_props by blast
  show "set (hex_state (sha256 content)) \<subseteq> set hex_digits" using hex_state_props by blast
qed

theorem calculate_file_hash_content_only_witness:
  "fst (calculate_file_hash time_utils_py ''notes.txt'' world0) =
     Inr (hex_state (sha256 [0x61, 0x62, 0x63])) \<and>
   fst (calculate_file_hash time_utils_py ''copy/notes.bak'' world0) =
     Inr (hex_state (sha256 [0x61, 0x62, 0x63]))"
proof -
  have a: "map_of (files world0) ''notes.txt'' = Some [0x61, 0x62, 0x63]"
    by (simp add: world0_def)
  have b: "map_of (files world0) ''copy/notes.bak'' = Some [0x61, 0x62, 0x63]"
    by (simp add: world0_def)
  have f: "faults world0 = []" by (simp add: world0_def)
  note th = calculate_file_hash_content_only[OF a b, of time_utils_py time_utils_py]
  show ?thesis
    using th[THEN conjunct1, rule_format, OF f]
          th[THEN conjunct2, THEN conjunct1, rule_format, OF f]
    by (rule conjI)
qed

subsection \<open>Handlers that swallow every exception\<close>

lemma io_cases:
  obtains (Raises) e w1 where "m w = (Inl e, w1)" | (Returns) x w1 where "m w = (Inr x, w1)"
  by (cases "m w"; cases "fst (m w)") auto

lemma logged_then_return: "\<exists>y w'. bind (log_error T msg) (\<lambda>_. return x) w = (Inr y, w')"
  using log_error_returns[of T msg w] by (auto simp: bind_def return_def)


lemma py_time_raises: "formatted_time time_utils_py use_utc w = (Inl TypeError, w)"
  by (simp add: time_utils_py_def get_formatted_time_def use_utc_def)

lemma try_except_total:
  assumes "\<And>e w1. \<exists>x w'. h e w1 = (Inr x, w')"
  shows "\<exists>x w'. try_except m h w = (Inr x, w')"
proof (cases rule: io_cases[of m w])
  case (Raises e w1)
  then show ?thesis using assms by (simp add: try_except_def)
next
  case (Returns x w1)
  then show ?thesis by (simp add: try_except_def)
qed


lemma get_active_never_raises:
  "\<exists>vs w'. get_active_file_versions T vm file_path w = (Inr vs, w')"
  unfolding get_active_file_versions_def
  by (rule try_except_total) (rule logged_then_return)



subsection \<open>The retention cap\<close>





subsection \<open>What \<^verbatim>\<open>add_version\<close> lets out\<close>



subsection \<open>Runs that stop at the clock\<close>

text \<open>
  Claim C3 at a concrete input: cap 2 and three active versions with the timestamps of
  three successive days.  With the functions of \<^verbatim>\<open>time_utils.py\<close>, \<^verbatim>\<open>_enforce_backup_limit\<close>
  stops at line 228, returns the empty list and marks nothing.  The same body, once the
  clock call passes, returns the oldest hash and marks it.
\<close>

theorem enforce_backup_limit_marks_nothing:
  "fst (enforce_backup_limit time_utils_py vm0 ''notes.txt'' world_three) = Inr [] \<and>
   stored_flags vm0 (snd (enforce_backup_limit time_utils_py vm0 ''notes.txt'' world_three))
     ''notes.txt'' = [(''aaa'', False), (''bbb'', False), (''ccc'', False)] \<and>
   fst (enforce_backup_limit time_utils_utc vm0 ''notes.txt'' world_three) = Inr [''aaa''] \<and>
   stored_flags vm0 (snd (enforce_backup_limit time_utils_utc vm0 ''notes.txt'' world_three))
     ''notes.txt'' = [(''aaa'', True), (''bbb'', False), (''ccc'', False)]"
  by code_simp

text \<open>
  Claim C5 at a concrete input: the hash \<open>aaa\<close> is recorded with \<^verbatim>\<open>deleted\<close> set, and is
  added again.  With the functions of \<^verbatim>\<open>time_utils.py\<close>, \<^verbatim>\<open>add_version\<close> stops at line 138: the
  entry stays deleted.  The same body, once the clock call passes, sets the flag back and
  keeps two entries.
\<close>

theorem add_version_leaves_version_deleted:
  "fst (add_version time_utils_py vm0 ''notes.txt'' ''aaa'' JNull ''again'' world_retired) = Inr [] \<and>
   stored_flags vm0 (snd (add_version time_utils_py vm0 ''notes.txt'' ''aaa'' JNull ''again'' world_retired))
     ''notes.txt'' = [(''aaa'', True), (''bbb'', False)] \<and>
   stored_flags vm0 (snd (add_version time_utils_utc vm0 ''notes.txt'' ''aaa'' JNull ''again'' world_retired))
     ''notes.txt'' = [(''aaa'', False), (''bbb'', False)]"
  by code_simp

text \<open>
  Claim C7 at a concrete input: the index file holds text that is no JSON document.  With
  the functions of \<^verbatim>\<open>time_utils.py\<close>, \<^verbatim>\<open>load_tracked_files\<close> returns the empty mapping, but the
  call of line 92 that builds the name of the copy raises, so no file is renamed: the
  unparsable file stays under the name of the index.  The same body, once the clock call
  passes, moves the file to a name that ends in the time.
\<close>

theorem load_leaves_corrupt_file_in_place:
  "fst (load_tracked_files time_utils_py vm0 world_corrupt) = Inr [] \<and>
   index_files (snd (load_tracked_files time_utils_py vm0 world_corrupt)) =
     [(''tracked_files.json'', Unparsable ''{ notes.txt: ['')] \<and>
   index_files (snd (load_tracked_files time_utils_utc vm0 world_corrupt)) =
     [(''tracked_files.json.corrupted_2025-05-01 12-00-00'', Unparsable ''{ notes.txt: ['')]"
  by code_simp

subsection \<open>Listing the active versions\<close>

lemma bind_total:
  assumes "\<exists>x w1. m w = (Inr x, w1)" and "\<And>x w1. \<exists>y w'. f x w1 = (Inr y, w')"
  shows "\<exists>y w'. bind m f w = (Inr y, w')"
proof -
  obtain x w1 where "m w = (Inr x, w1)" using assms(1) by blast
  then have "bind m f w = f x w1" by (simp add: bind_def)
  then show ?thesis using assms(2)[of x w1] by simp
qed

lemma return_total: "\<exists>y w'. return x w = (Inr y, w')"
  by (simp add: return_def)

lemma log_error_total: "\<exists>y w'. log_error T msg w = (Inr y, w')"
  using log_error_returns[of T msg w] by blast

lemma load_never_raises: "\<exists>tracked w'. load_tracked_files T vm w = (Inr tracked, w')"
  unfolding load_tracked_files_def
proof (rule try_except_total)
  fix e w1
  let ?h = "\<lambda>e. if e = FileNotFoundError then return []
        else if e = JSONDecodeError then
          bind (log_error T (''Error: tracked_files.json at '' @ tracked_files_path vm @
                             '' is corrupted. BACKING UP and starting fresh.'')) (\<lambda>_.
          bind (try_except
                  (bind (formatted_time T use_utc) (\<lambda>t.
                   let corrupted_backup_path =
                         tracked_files_path vm @ ''.corrupted_'' @
                         map (\<lambda>c. if c = CHR '':'' then CHR ''-'' else c) t
                   in os_replace (tracked_files_path vm) corrupted_backup_path))
                  (\<lambda>backup_e.
                   log_error T (''Failed to backup corrupted tracked_files.json: '' @
                                exn_text backup_e))) (\<lambda>_.
          return []))
        else
          bind (log_error T (''Unexpected error loading '' @ tracked_files_path vm @ '': '' @
                             exn_text e)) (\<lambda>_.
          return [])"
  show "\<exists>x w'. ?h e w1 = (Inr x, w')"
  proof (cases "e = FileNotFoundError")
    case True
    then show ?thesis by (simp add: return_def)
  next
    case nf: False
    show ?thesis
    proof (cases "e = JSONDecodeError")
      case True
      have "\<exists>x w'. bind (log_error T (''Error: tracked_files.json at '' @ tracked_files_path vm @
                             '' is corrupted. BACKING UP and starting fresh.'')) (\<lambda>_.
          bind (try_except
                  (bind (formatted_time T use_utc) (\<lambda>t.
                   let corrupted_backup_path =
                         tracked_files_path vm @ ''.corrupted_'' @
                         map (\<lambda>c. if c = CHR '':'' then CHR ''-'' else c) t
                   in os_replace (tracked_files_path vm) corrupted_backup_path))
                  (\<lambda>backup_e.
                   log_error T (''Failed to backup corrupted tracked_files.json: '' @
                                exn_text backup_e))) (\<lambda>_.
          return [])) w1 = (Inr x, w')"
        by (intro bind_total log_error_total try_except_total return_total)
      then show ?thesis using True by simp
    next
      case False
      then show ?thesis using nf logged_then_return by simp
    qed
  qed
qed

lemma strptime_raises: "strptime s = Inl e \<Longrightarrow> e = ValueError"
  by (auto simp: strptime_def split: option.splits prod.splits if_splits)

lemma scan_versions_result:
  "\<exists>w'. scan_versions T invalid_msg missing_msg vs w = (Inr (with_time vs), w')"
proof (induction vs arbitrary: w)
  case Nil
  show ?case by (simp add: return_def with_time_def)
next
  case (Cons p rest)
  obtain hash_id info where p: "p = (hash_id, info)" by (cases p)
  let ?here = "if is_deleted info then []
               else (case parsed_timestamp info of None \<Rightarrow> [] | Some dt \<Rightarrow> [(hash_id, info, dt)])"
  let ?step = "if \<not> is_deleted info then
             (case timestamp info of
                None \<Rightarrow> bind (log_error T (missing_msg hash_id)) (\<lambda>_. return [])
              | Some ts_str \<Rightarrow>
                  (if ts_str \<noteq> [] then
                     try_except
                       (bind (lift (strptime ts_str)) (\<lambda>ts_dt. return [(hash_id, info, ts_dt)]))
                       (\<lambda>e. if is_ValueError e
                            then bind (log_error T (invalid_msg ts_str hash_id)) (\<lambda>_. return [])
                            else raise e)
                   else bind (log_error T (missing_msg hash_id)) (\<lambda>_. return [])))
           else return []"
  have logged: "\<And>msg v. \<exists>w1. bind (log_error T msg) (\<lambda>_. return []) v = (Inr ?here, w1)"
    if "?here = []"
  proof -
    fix msg v
    obtain v' where "log_error T msg v = (Inr (), v')" using log_error_returns by blast
    then show "\<exists>w1. bind (log_error T msg) (\<lambda>_. return []) v = (Inr ?here, w1)"
      using that by (simp add: bind_def return_def)
  qed
  have step: "\<exists>w1. ?step w = (Inr ?here, w1)"
  proof (cases "is_deleted info")
    case True
    then show ?thesis by (simp add: return_def)
  next
    case nd: False
    show ?thesis
    proof (cases "timestamp info")
      case None
      then have "?here = []" by (simp add: parsed_timestamp_def)
      from logged[OF this] show ?thesis using nd None by simp
    next
      case (Some ts_str)
      show ?thesis
      proof (cases "ts_str = []")
        case True
        then have "?here = []" using Some by (simp add: parsed_timestamp_def)
        from logged[OF this] show ?thesis using nd Some True by simp
      next
        case ne: False
        show ?thesis
        proof (cases "strptime ts_str")
          case (Inl e)
          then have e: "is_ValueError e" using strptime_raises by (simp add: is_ValueError_def)
          have "?here = []" using Some ne Inl by (simp add: parsed_timestamp_def)
          from logged[OF this] show ?thesis using nd Some ne Inl e
            by (simp add: try_except_def bind_def lift_def)
        next
          case (Inr dt)
          then show ?thesis using nd Some ne
            by (simp add: try_except_def bind_def lift_def return_def parsed_timestamp_def)
        qed
      qed
    qed
  qed
  then obtain w1 where s1: "?step w = (Inr ?here, w1)" by blast
  obtain w2 where s2: "scan_versions T invalid_msg missing_msg rest w1 = (Inr (with_time rest), w2)"
    using Cons.IH by blast
  have "scan_versions T invalid_msg missing_msg (p # rest) w = (Inr (?here @ with_time rest), w2)"
    unfolding p scan_versions.simps by (simp add: bind_def s1 s2 return_def)
  moreover have "with_time (p # rest) = ?here @ with_time rest"
    by (simp add: with_time_def p)
  ultimately show ?case by auto
qed

lemma mset_sort_newest_first: "mset (sort_newest_first f xs) = mset xs"
  by (simp add: sort_newest_first_def)

lemma set_sort_newest_first: "set (sort_newest_first f xs) = set xs"
  by (simp add: sort_newest_first_def)

lemma sorted_sort_newest_first: "sorted (rev (map f (sort_newest_first f xs)))"
  by (simp add: sort_newest_first_def rev_map)

lemma with_time_listed:
  "map (\<lambda>(h, info, dt). (h, info)) (with_time vs) = filter (\<lambda>(h, info). listed info) vs"
  by (induction vs) (auto simp: with_time_def listed_def split: option.splits)

lemma with_time_key: "(h, info, dt) \<in> set (with_time vs) \<Longrightarrow> time_key info = dt"
  by (auto simp: with_time_def time_key_def split: if_splits option.splits)

lemma listing_of_with_time:
  "mset (map (\<lambda>(h, info, dt). (h, info)) (sort_newest_first (\<lambda>(h, i, dt). dt) (with_time vs))) =
     mset (filter (\<lambda>(h, info). listed info) vs) \<and>
   sorted (rev (map (\<lambda>(h, info). time_key info)
                 (map (\<lambda>(h, info, dt). (h, info))
                    (sort_newest_first (\<lambda>(h, i, dt). dt) (with_time vs)))))"
proof
  let ?s = "sort_newest_first (\<lambda>(h, i, dt). dt) (with_time vs)"
  have "mset (map (\<lambda>(h, info, dt). (h, info)) ?s) =
          image_mset (\<lambda>(h, info, dt). (h, info)) (mset ?s)"
    by simp
  also have "\<dots> = image_mset (\<lambda>(h, info, dt). (h, info)) (mset (with_time vs))"
    by (simp only: mset_sort_newest_first)
  also have "\<dots> = mset (map (\<lambda>(h, info, dt). (h, info)) (with_time vs))" by simp
  finally show "mset (map (\<lambda>(h, info, dt). (h, info)) ?s) =
                  mset (filter (\<lambda>(h, info). listed info) vs)"
    by (simp only: with_time_listed)
  have "map (\<lambda>(h, info). time_key info) (map (\<lambda>(h, info, dt). (h, info)) ?s) =
          map (\<lambda>(h, i, dt). dt) ?s"
    using with_time_key by (auto simp: set_sort_newest_first)
  then show "sorted (rev (map (\<lambda>(h, info). time_key info)
                 (map (\<lambda>(h, info, dt). (h, info)) ?s)))"
    by (simp only: sorted_sort_newest_first)
qed

text \<open>
  Claim C8.  \<^verbatim>\<open>get_active_file_versions\<close> never raises.  Its result holds exactly the
  entries that the loaded mapping records for the normalised path with \<^verbatim>\<open>deleted\<close> false
  and a timestamp that is present, not empty and accepted by \<^verbatim>\<open>strptime\<close> for
  \<^verbatim>\<open>"%Y-%m-%d %H:%M:%S"\<close>, each as often as it is recorded, ordered from the newest to the
  oldest.  Every other entry is left out; an untracked path, a missing or empty
  \<^verbatim>\<open>versions\<close> dictionary and a dictionary without such an entry give the empty list.
  The mapping is what \<^verbatim>\<open>load_tracked_files\<close>, which never raises either, returns in the
  same world.
\<close>

theorem get_active_file_versions_listing:
  "\<exists>tracked w1 res w'.
     load_tracked_files T vm w = (Inr tracked, w1) \<and>
     get_active_file_versions T vm file_path w = (Inr res, w') \<and>
     mset res = mset (filter (\<lambda>(h, info). listed info) (versions_of tracked (normpath file_path))) \<and>
     sorted (rev (map (\<lambda>(h, info). time_key info) res))"
proof -
  obtain tracked w1 where ld: "load_tracked_files T vm w = (Inr tracked, w1)"
    using load_never_raises by blast
  let ?vs = "versions_of tracked (normpath file_path)"
  let ?res = "map (\<lambda>(h, info, dt). (h, info)) (sort_newest_first (\<lambda>(h, i, dt). dt) (with_time ?vs))"
  obtain w2 where sc: "scan_versions T
         (\<lambda>ts_str hash_id. ''Skipping version '' @ hash_id @ '' for '' @
                          normpath file_path @ '' due to invalid timestamp '' @ [CHR 0x27] @ ts_str @
                          [CHR 0x27] @ '' in get_active_file_versions.'')
         (\<lambda>hash_id. ''Skipping version '' @ hash_id @ '' for '' @ normpath file_path @
                          '' due to missing timestamp in get_active_file_versions.'')
         ?vs w1 = (Inr (with_time ?vs), w2)"
    using scan_versions_result by blast
  have empty: "?res = []" if "with_time ?vs = []"
    using that by (simp add: sort_newest_first_def)
  have "\<exists>w'. get_active_file_versions T vm file_path w = (Inr ?res, w')"
  proof (cases "?vs = []")
    case True
    then have "with_time ?vs = []" by (simp add: with_time_def)
    then show ?thesis using True empty
      by (auto simp: get_active_file_versions_def try_except_def bind_def ld return_def
          versions_of_def Let_def split: option.splits)
  next
    case False
    then show ?thesis using sc empty
      by (auto simp: get_active_file_versions_def try_except_def bind_def ld return_def
          versions_of_def Let_def split: option.splits)
  qed
  then show ?thesis using ld listing_of_with_time[of ?vs] by blast
qed

subsection \<open>Saving the index\<close>

lemma fault_taken_frame [simp]:
  "index_files (fault_taken w) = index_files w"
  "files (fault_taken w) = files w"
  "console (fault_taken w) = console w"
  "error_log (fault_taken w) = error_log w"
  by (simp_all add: fault_taken_def)

lemma fault_now_update [simp]:
  "fault_now (w\<lparr>console := c\<rparr>) = fault_now w"
  "fault_now (w\<lparr>logs_dir := d\<rparr>) = fault_now w"
  "fault_now (w\<lparr>index_files := i\<rparr>) = fault_now w"
  "fault_now (w\<lparr>error_log := l\<rparr>) = fault_now w"
  by (simp_all add: fault_now_def)

lemma fault_taken_update [simp]:
  "fault_taken (w\<lparr>console := c\<rparr>) = (fault_taken w)\<lparr>console := c\<rparr>"
  "fault_taken (w\<lparr>logs_dir := d\<rparr>) = (fault_taken w)\<lparr>logs_dir := d\<rparr>"
  "fault_taken (w\<lparr>index_files := i\<rparr>) = (fault_taken w)\<lparr>index_files := i\<rparr>"
  "fault_taken (w\<lparr>error_log := l\<rparr>) = (fault_taken w)\<lparr>error_log := l\<rparr>"
  by (simp_all add: fault_taken_def)

lemma log_error_py_eq:
  "log_error time_utils_py msg w =
     (Inr (),
      (fault_taken w)
        \<lparr>logs_dir := (if fault_now w then logs_dir w else True),
         console := console w @
           [''!!! CRITICAL: Failed to write to error log file: '' @
              exn_text (if fault_now w then OSError else TypeError),
            ''Original error was: '' @ msg]\<rparr>)"
  by (simp add: log_error_def try_except_def bind_def print_def makedirs_logs_def fallible_def
      py_time_raises fault_taken_def)

lemma tmp_differs: "p @ ''.tmp'' \<noteq> p"
  by simp

lemma save_tracked_files_outcome:
  assumes "save_tracked_files time_utils_py vm tracked w = (r, w')"
  shows "(r = Inr () \<and>
          map_of (index_files w') (tracked_files_path vm) = Some (Document tracked) \<and>
          map_of (index_files w') (tracked_files_path vm @ ''.tmp'') = None) \<or>
         (r = Inl OSError \<and>
          map_of (index_files w') (tracked_files_path vm) =
            map_of (index_files w) (tracked_files_path vm) \<and>
          (map_of (index_files w') (tracked_files_path vm @ ''.tmp'') = None \<or>
           ''Original error was: Failed to remove temporary save file '' @ tracked_files_path vm @
             ''.tmp: OSError'' \<in> set (console w')))"
  using assms
  by (auto simp add: save_tracked_files_def Let_def try_except_def bind_def open_w_def
      json_dump_def os_replace_def os_remove_def index_exists_def raise_def return_def
      fallible_def log_error_py_eq update_conv' delete_conv' split: if_splits)

text \<open>
  Claim C6, amended.  \<^verbatim>\<open>save_tracked_files\<close> writes to the path of the index with \<^verbatim>\<open>.tmp\<close>
  appended and replaces the index in one step.  When it returns, the index holds the
  complete new mapping and no temporary file is left.  When it raises, it raises the
  \<^verbatim>\<open>OSError\<close> of the failed operation, the index holds what it held before, and the
  temporary file is gone unless its removal failed as well, in which case the console
  carries the report of that second failure.
\<close>

theorem save_tracked_files_all_or_nothing:
  "(fst (save_tracked_files time_utils_py vm tracked w) = Inr () \<longrightarrow>
      map_of (index_files (snd (save_tracked_files time_utils_py vm tracked w)))
        (tracked_files_path vm) = Some (Document tracked) \<and>
      map_of (index_files (snd (save_tracked_files time_utils_py vm tracked w)))
        (tracked_files_path vm @ ''.tmp'') = None) \<and>
   (\<forall>e. fst (save_tracked_files time_utils_py vm tracked w) = Inl e \<longrightarrow>
      e = OSError \<and>
      map_of (index_files (snd (save_tracked_files time_utils_py vm tracked w)))
        (tracked_files_path vm) = map_of (index_files w) (tracked_files_path vm) \<and>
      (map_of (index_files (snd (save_tracked_files time_utils_py vm tracked w)))
         (tracked_files_path vm @ ''.tmp'') = None \<or>
       ''Original error was: Failed to remove temporary save file '' @ tracked_files_path vm @
         ''.tmp: OSError'' \<in> set (console (snd (save_tracked_files time_utils_py vm tracked w)))))"
proof -
  obtain r w' where s: "save_tracked_files time_utils_py vm tracked w = (r, w')"
    by (cases "save_tracked_files time_utils_py vm tracked w")
  show ?thesis unfolding s using save_tracked_files_outcome[OF s] by auto
qed

theorem save_tracked_files_all_or_nothing_witness:
  "map_of (index_files (snd (save_tracked_files time_utils_py vm0 three_versions world0)))
     ''tracked_files.json'' = Some (Document three_versions) \<and>
   map_of (index_files (snd (save_tracked_files time_utils_py vm0 three_versions world0)))
     ''tracked_files.json.tmp'' = None \<and>
   map_of (index_files (snd (save_tracked_files time_utils_py vm0 [] world_no_space)))
     ''tracked_files.json'' = Some (Document three_versions)"
proof -
  have ok: "fst (save_tracked_files time_utils_py vm0 three_versions world0) = Inr ()"
    by code_simp
  have bad: "fst (save_tracked_files time_utils_py vm0 [] world_no_space) = Inl OSError"
    by code_simp
  have p: "tracked_files_path vm0 = ''tracked_files.json''" by (simp add: vm0_def)
  have before: "map_of (index_files world_no_space) ''tracked_files.json'' =
                  Some (Document three_versions)"
    by (simp add: world_no_space_def world_three_def)
  note a = save_tracked_files_all_or_nothing[of vm0 three_versions world0,
      THEN conjunct1, rule_format, OF ok]
  note b = save_tracked_files_all_or_nothing[of vm0 "[]" world_no_space,
      THEN conjunct2, rule_format, OF bad]
  show ?thesis using a b p before by simp
qed

text \<open>
  Claim C6 as stated fails where the removal of the temporary file fails too: the write
  of the text fails, \<^verbatim>\<open>os.remove\<close> fails, and the incomplete temporary file is still there
  when \<^verbatim>\<open>save_tracked_files\<close> raises.
\<close>

theorem save_leaves_temporary_file:
  "fst (save_tracked_files time_utils_py vm0 [] world_no_space) = Inl OSError \<and>
   map_of (index_files (snd (save_tracked_files time_utils_py vm0 [] world_no_space)))
     ''tracked_files.json.tmp'' = Some Incomplete"
  by code_simp

end
